theory Spec2Isabelle
  imports Complex_Main
begin

section \<open>The compositing engine of imagen-thumbnail-api\<close>

text \<open>
  A shallow embedding of the compositing services:
  \<^item> \<^verbatim>\<open>services/contextualCompositing.ts\<close>, the scene-aware pipeline;
  \<^item> \<^verbatim>\<open>services/lifestyleCompositing.ts\<close>, the blur and vignette pipeline;
  \<^item> the compositing service of the flat product-on-background pipeline
    (\<^verbatim>\<open>compositeProductOnBackground\<close>);
  \<^item> \<^verbatim>\<open>services/gradientService.ts\<close> and \<^verbatim>\<open>services/blurService.ts\<close>;
  \<^item> the range check of \<^verbatim>\<open>productSpaceRatio\<close> in \<^verbatim>\<open>routes/generateContextualThumbnail.ts\<close>.

  Conventions of the embedding.
  \<^item> A JavaScript \<^verbatim>\<open>number\<close> is a rational (\<^typ>\<open>rat\<close>) where the code computes with
    fractions and an \<^typ>\<open>int\<close> where the value comes out of \<^verbatim>\<open>Math.floor\<close>,
    \<^verbatim>\<open>Math.round\<close> or an integer constant. Arithmetic is exact: the rounding of IEEE
    doubles, \<^verbatim>\<open>NaN\<close> and the infinities are outside the model. The products of constants
    that the source floors, rounds or compares with are the same in double arithmetic:
    1280 * 0.35 = 448, 1280 * 0.65 = 832, 1280 * 0.45 = 576, 1280 * 0.05 = 64,
    720 * 0.8 = 576, 720 * 0.85 = 612, 720 * 0.65 = 468, 0.2 * 255 = 51 and
    0.3 * 255 = 76.5 come out exactly, and 1280 * 0.33 and 1280 * 0.67 are within
    \<^verbatim>\<open>1e-12\<close> of 422.4 and 857.6, whose floors after subtracting a multiple of one half
    do not depend on such an error.
  \<^item> \<^verbatim>\<open>Math.floor\<close> is \<^term>\<open>floor\<close>, \<^verbatim>\<open>Math.max\<close> and \<^verbatim>\<open>Math.min\<close> are \<^term>\<open>max\<close> and
    \<^term>\<open>min\<close>.
  \<^item> Strings are lists of 8-bit characters; \<^verbatim>\<open>toLowerCase\<close> is modelled on ASCII.
  \<^item> The image library (sharp) is not part of the repository. Its operations are fields
    of a record \<open>'r sharp\<close> over an uninterpreted buffer type \<open>'r\<close>; each may fail, so
    each returns \<open>error + 'r\<close>. An \<^verbatim>\<open>await\<close> that rejects inside \<^verbatim>\<open>try\<close> is \<open>Inl\<close>, and
    \<^verbatim>\<open>catch (error) { console.error(...); throw error; }\<close> passes it on unchanged.
  \<^item> Base64 decoding of the inputs (\<^verbatim>\<open>Buffer.from(s, 'base64')\<close>, which never throws) and
    base64 encoding of the output are left out: the pipelines take and return buffers.
\<close>

subsection \<open>JavaScript library functions used by the services\<close>

definition err_bind :: "'e + 'a \<Rightarrow> ('a \<Rightarrow> 'e + 'b) \<Rightarrow> 'e + 'b" where
  "err_bind m f = (case m of Inl e \<Rightarrow> Inl e | Inr v \<Rightarrow> f v)"


definition lowerChar :: "char \<Rightarrow> char" where
  \<comment> \<open>the letters A to Z go to a to z, every other character stays\<close>
  "lowerChar c =
    (case map_of (zip ''ABCDEFGHIJKLMNOPQRSTUVWXYZ'' ''abcdefghijklmnopqrstuvwxyz'') c of
       None \<Rightarrow> c
     | Some l \<Rightarrow> l)"

definition toLowerCase :: "string \<Rightarrow> string" where
  "toLowerCase s = map lowerChar s"

fun String_includes :: "string \<Rightarrow> string \<Rightarrow> bool" where
  \<comment> \<open>\<^verbatim>\<open>s.includes(sub)\<close>: \<open>sub\<close> occurs in \<open>s\<close> at some offset.\<close>
  "String_includes [] sub = (sub = [])"
| "String_includes (c # cs) sub =
    (take (length sub) (c # cs) = sub \<or> String_includes cs sub)"





subsection \<open>Types shared by the services (\<^verbatim>\<open>src/types/index.ts\<close>)\<close>

datatype PedestalPosition = Center | RightThird | LeftThird | CenterBottom

datatype LightingType =
  LT_dramatic | LT_soft | LT_natural | LT_studio | LT_golden_hour | LT_neon

datatype LightingIntensity = LI_high_contrast | LI_balanced | LI_low_key

datatype ColorMood =
  Mood_energetic | Mood_premium | Mood_calm | Mood_natural | Mood_bold | Mood_elegant
  | Mood_playful

text \<open>
  Of a \<^verbatim>\<open>SceneDesign\<close> the compositing code reads \<^verbatim>\<open>environment.lighting.type\<close>,
  \<^verbatim>\<open>environment.lighting.intensity\<close>, \<^verbatim>\<open>colorScheme.background\<close>, \<^verbatim>\<open>colorScheme.mood\<close>,
  \<^verbatim>\<open>pedestal.position\<close>, \<^verbatim>\<open>pedestal.hasReflection\<close> and \<^verbatim>\<open>pedestal.productSpaceRatio\<close>;
  the records keep these fields and their nesting (each field name prefixed by the name
  of the field that holds its record), the other fields are never read.
\<close>

record SceneLighting =
  lighting_type :: LightingType
  lighting_intensity :: LightingIntensity

record SceneEnvironment =
  environment_lighting :: SceneLighting

record ColorScheme =
  colorScheme_background :: string
  colorScheme_mood :: ColorMood

record PedestalDesign =
  pedestal_position :: PedestalPosition
  pedestal_hasReflection :: bool
  pedestal_productSpaceRatio :: rat

record SceneDesign =
  design_environment :: SceneEnvironment
  design_colorScheme :: ColorScheme
  design_pedestal :: PedestalDesign

text \<open>The returned box \<^verbatim>\<open>{ x, y, width, height }\<close>.\<close>

record Position =
  pos_x :: int
  pos_y :: int
  pos_width :: int
  pos_height :: int

text \<open>The shadow settings \<^verbatim>\<open>{ blur, offsetX, offsetY, opacity }\<close>.\<close>

record ShadowSettings =
  shadow_blur :: rat
  shadow_offsetX :: int
  shadow_offsetY :: int
  shadow_opacity :: rat

definition THUMBNAIL_WIDTH :: int where "THUMBNAIL_WIDTH = 1280"
definition THUMBNAIL_HEIGHT :: int where "THUMBNAIL_HEIGHT = 720"

subsection \<open>The image library\<close>

datatype error = Error string

text \<open>
  One entry of the array handed to \<^verbatim>\<open>sharp(...).composite([...])\<close>:
  \<^verbatim>\<open>{ input, top, left }\<close> or \<^verbatim>\<open>{ input, blend }\<close>.
\<close>

record 'r CompositeLayer =
  layer_input :: 'r
  layer_top :: "int option"
  layer_left :: "int option"
  layer_blend :: "string option"

text \<open>The SVG document built by \<^verbatim>\<open>createRadialGradient\<close>: the holes of the template
  literal and the literal attributes of its three gradient stops (offset, stop-color).\<close>

record RadialGradientSvg =
  svg_width :: int
  svg_height :: int
  gradient_cx :: rat
  gradient_cy :: rat
  gradient_r :: rat
  gradient_stops :: "(string \<times> string) list"

text \<open>
  The calls into sharp, one field per chain of the source:
  \<^item> \<open>sharp_metadata\<close>: \<^verbatim>\<open>sharp(b).metadata()\<close>, giving the optional \<^verbatim>\<open>width\<close> and
    \<^verbatim>\<open>height\<close>;
  \<^item> \<open>sharp_resize_contain b w h\<close>:
    \<^verbatim>\<open>sharp(b).resize(w, h, { fit: 'contain', background: transparent }).png().toBuffer()\<close>;
  \<^item> \<open>sharp_resize_cover b w h\<close>:
    \<^verbatim>\<open>sharp(b).resize(w, h, { fit: 'cover' }).png().toBuffer()\<close>;
  \<^item> \<open>sharp_silhouette b sigma alpha\<close>:
    \<^verbatim>\<open>sharp(b).grayscale().modulate({ brightness: 0 }).blur(sigma).ensureAlpha(alpha).toBuffer()\<close>;
  \<^item> \<open>sharp_flip_fade b brightness sigma alpha\<close>:
    \<^verbatim>\<open>sharp(b).flip().modulate({ brightness }).blur(sigma).ensureAlpha(alpha).toBuffer()\<close>;
  \<^item> \<open>sharp_blur b sigma\<close>: \<^verbatim>\<open>sharp(b).blur(sigma).toBuffer()\<close>;
  \<^item> \<open>sharp_composite b layers\<close>: \<^verbatim>\<open>sharp(b).composite(layers).png().toBuffer()\<close>;
  \<^item> \<open>Buffer_from_svg\<close>: \<^verbatim>\<open>Buffer.from(svg)\<close>, which does not fail.
\<close>

record 'r sharp =
  sharp_metadata :: "'r \<Rightarrow> error + (nat option \<times> nat option)"
  sharp_resize_contain :: "'r \<Rightarrow> int \<Rightarrow> int \<Rightarrow> error + 'r"
  sharp_resize_cover :: "'r \<Rightarrow> int \<Rightarrow> int \<Rightarrow> error + 'r"
  sharp_silhouette :: "'r \<Rightarrow> rat \<Rightarrow> rat \<Rightarrow> error + 'r"
  sharp_flip_fade :: "'r \<Rightarrow> rat \<Rightarrow> rat \<Rightarrow> rat \<Rightarrow> error + 'r"
  sharp_blur :: "'r \<Rightarrow> rat \<Rightarrow> error + 'r"
  sharp_composite :: "'r \<Rightarrow> 'r CompositeLayer list \<Rightarrow> error + 'r"
  Buffer_from_svg :: "RadialGradientSvg \<Rightarrow> 'r"

definition or_400 :: "nat option \<Rightarrow> int" where
  \<comment> \<open>\<^verbatim>\<open>cutoutMetadata.width || 400\<close>: \<^verbatim>\<open>undefined\<close> and \<^verbatim>\<open>0\<close> are falsy.\<close>
  "or_400 v = (case v of None \<Rightarrow> 400 | Some n \<Rightarrow> if n = 0 then 400 else int n)"

subsection \<open>Shadow presets of the scene-aware pipeline (\<^verbatim>\<open>contextualCompositing.ts\<close>)\<close>

datatype ShadowPreset = P_dark | P_light | P_dramatic | P_soft | P_default

fun SHADOW_PRESETS :: "ShadowPreset \<Rightarrow> ShadowSettings" where
  "SHADOW_PRESETS P_dark = \<lparr>shadow_blur = 30, shadow_offsetX = 0, shadow_offsetY = 20, shadow_opacity = 0.5\<rparr>"
| "SHADOW_PRESETS P_light = \<lparr>shadow_blur = 25, shadow_offsetX = 5, shadow_offsetY = 15, shadow_opacity = 0.4\<rparr>"
| "SHADOW_PRESETS P_dramatic = \<lparr>shadow_blur = 35, shadow_offsetX = 10, shadow_offsetY = 25, shadow_opacity = 0.6\<rparr>"
| "SHADOW_PRESETS P_soft = \<lparr>shadow_blur = 15, shadow_offsetX = 3, shadow_offsetY = 8, shadow_opacity = 0.2\<rparr>"
| "SHADOW_PRESETS P_default = \<lparr>shadow_blur = 20, shadow_offsetX = 5, shadow_offsetY = 12, shadow_opacity = 0.35\<rparr>"

definition isDarkBg :: "SceneDesign \<Rightarrow> bool" where
  \<comment> \<open>the local \<^verbatim>\<open>isDarkBg\<close> of \<^verbatim>\<open>getShadowFromDesign\<close>\<close>
  "isDarkBg design =
    (let colorScheme = design_colorScheme design;
         bgColor = colorScheme_background colorScheme
     in toLowerCase bgColor = ''#000000''
        \<or> String_includes (toLowerCase bgColor) ''1c1c1e''
        \<or> colorScheme_mood colorScheme = Mood_bold
        \<or> colorScheme_mood colorScheme = Mood_energetic)"

definition getShadowFromDesign :: "SceneDesign \<Rightarrow> ShadowSettings" where
  "getShadowFromDesign design =
    (let environment = design_environment design;
         lightingType = lighting_type (environment_lighting environment);
         lightingIntensity = lighting_intensity (environment_lighting environment)
     in if lightingType = LT_dramatic \<or> lightingType = LT_neon then SHADOW_PRESETS P_dramatic
        else if lightingType = LT_soft \<or> lightingIntensity = LI_low_key then SHADOW_PRESETS P_soft
        else if isDarkBg design then SHADOW_PRESETS P_dark
        else if \<not> isDarkBg design then SHADOW_PRESETS P_light
        else SHADOW_PRESETS P_default)"

subsection \<open>Geometry of the scene-aware pipeline (\<^verbatim>\<open>contextualCompositing.ts\<close>)\<close>

text \<open>
  \<^verbatim>\<open>PedestalPosition\<close> has four values, so the \<^verbatim>\<open>default\<close> arm of the \<^verbatim>\<open>switch\<close> is not
  reachable from typed callers and has no case here. The cutout size is divided, so the
  model is the code for \<open>cutoutHeight \<noteq> 0\<close>; both pipelines replace a missing or zero
  size by 400 before the call.
\<close>

definition calculateProductPosition_contextual ::
  "PedestalPosition \<Rightarrow> rat \<Rightarrow> rat \<Rightarrow> rat \<Rightarrow> Position" where
  "calculateProductPosition_contextual pedestalPosition productSpaceRatio cutoutWidth cutoutHeight =
    (let targetWidth = \<lfloor>of_int THUMBNAIL_WIDTH * productSpaceRatio\<rfloor>;
         cutoutAspect = cutoutWidth / cutoutHeight;
         (drawWidth, drawHeight) =
           (if cutoutAspect > 1 then
              (let drawWidth = targetWidth;
                   drawHeight = \<lfloor>of_int targetWidth / cutoutAspect\<rfloor>
               in if of_int drawHeight > of_int THUMBNAIL_HEIGHT * (0.8 :: rat) then
                    (let drawHeight = \<lfloor>of_int THUMBNAIL_HEIGHT * (0.8 :: rat)\<rfloor>
                     in (\<lfloor>of_int drawHeight * cutoutAspect\<rfloor>, drawHeight))
                  else (drawWidth, drawHeight))
            else
              (let drawHeight = \<lfloor>of_int THUMBNAIL_HEIGHT * (0.85 :: rat)\<rfloor>;
                   drawWidth = \<lfloor>of_int drawHeight * cutoutAspect\<rfloor>
               in if drawWidth > targetWidth then
                    (let drawWidth = targetWidth
                     in (drawWidth, \<lfloor>of_int drawWidth / cutoutAspect\<rfloor>))
                  else (drawWidth, drawHeight)));
         drawWidth = max drawWidth 200;
         drawHeight = max drawHeight 200;
         (x, y) =
           (case pedestalPosition of
              Center \<Rightarrow>
                (\<lfloor>(of_int (THUMBNAIL_WIDTH - drawWidth) :: rat) / 2\<rfloor>,
                 \<lfloor>(of_int (THUMBNAIL_HEIGHT - drawHeight) :: rat) / 2\<rfloor>)
            | CenterBottom \<Rightarrow>
                (\<lfloor>(of_int (THUMBNAIL_WIDTH - drawWidth) :: rat) / 2\<rfloor>,
                 \<lfloor>of_int THUMBNAIL_HEIGHT * (0.65 :: rat) - of_int drawHeight\<rfloor>)
            | RightThird \<Rightarrow>
                (\<lfloor>of_int THUMBNAIL_WIDTH * (0.65 :: rat) - of_int drawWidth / 2\<rfloor>,
                 \<lfloor>(of_int (THUMBNAIL_HEIGHT - drawHeight) :: rat) / 2\<rfloor>)
            | LeftThird \<Rightarrow>
                (\<lfloor>of_int THUMBNAIL_WIDTH * (0.35 :: rat) - of_int drawWidth / 2\<rfloor>,
                 \<lfloor>(of_int (THUMBNAIL_HEIGHT - drawHeight) :: rat) / 2\<rfloor>));
         x = max 20 (min x (THUMBNAIL_WIDTH - drawWidth - 20));
         y = max 20 (min y (THUMBNAIL_HEIGHT - drawHeight - 20))
     in \<lparr>pos_x = x, pos_y = y, pos_width = drawWidth, pos_height = drawHeight\<rparr>)"


subsection \<open>Geometry of the lifestyle pipeline (\<^verbatim>\<open>lifestyleCompositing.ts\<close>)\<close>


subsection \<open>The vignette (\<^verbatim>\<open>gradientService.ts\<close>)\<close>







subsection \<open>The softening filter (\<^verbatim>\<open>blurService.ts\<close>)\<close>



subsection \<open>Results of the pipelines\<close>

text \<open>
  \<^verbatim>\<open>CompositingResult\<close> is \<^verbatim>\<open>{ imageBase64, composited }\<close>;
  \<^verbatim>\<open>ContextualCompositingResult\<close> and \<^verbatim>\<open>LifestyleCompositingResult\<close> add \<^verbatim>\<open>position\<close>.
  \<open>imageBase64\<close> holds the composited buffer itself.
\<close>

record 'r CompositingResult =
  imageBase64 :: 'r
  composited :: bool

record 'r PlacedCompositingResult = "'r CompositingResult" +
  result_position :: Position

subsection \<open>The flat pipeline (\<^verbatim>\<open>compositeProductOnBackground\<close>)\<close>





subsection \<open>The scene-aware pipeline (\<^verbatim>\<open>contextualCompositing.ts\<close>)\<close>

definition compositeInputs_contextual ::
  "'r sharp \<Rightarrow> PedestalDesign \<Rightarrow> Position \<Rightarrow> ShadowSettings \<Rightarrow> 'r \<Rightarrow> 'r
    \<Rightarrow> 'r CompositeLayer list" where
  \<comment> \<open>the array \<^verbatim>\<open>compositeInputs\<close> as it stands before the call of \<^verbatim>\<open>composite\<close>;
     a rejected reflection chain is caught, logged and leaves the array as it was\<close>
  "compositeInputs_contextual ops pedestal pos shadow shadowBuffer resizedCutout =
    (let compositeInputs = [];
         compositeInputs = compositeInputs @
           [\<lparr>layer_input = shadowBuffer,
             layer_top = Some (max 0 (pos_y pos + shadow_offsetY shadow)),
             layer_left = Some (max 0 (pos_x pos + shadow_offsetX shadow)),
             layer_blend = None\<rparr>];
         compositeInputs =
           (if pedestal_hasReflection pedestal \<and> pedestal_position pedestal = CenterBottom then
              (case sharp_flip_fade ops resizedCutout 0.3 3 0.3 of
                 Inr reflectionBuffer \<Rightarrow> compositeInputs @
                   [\<lparr>layer_input = reflectionBuffer,
                     layer_top = Some (min (THUMBNAIL_HEIGHT - 50) (pos_y pos + pos_height pos)),
                     layer_left = Some (pos_x pos),
                     layer_blend = None\<rparr>]
               | Inl reflectionError \<Rightarrow> compositeInputs)
            else compositeInputs);
         compositeInputs = compositeInputs @
           [\<lparr>layer_input = resizedCutout, layer_top = Some (pos_y pos),
             layer_left = Some (pos_x pos), layer_blend = None\<rparr>]
     in compositeInputs)"

definition compositeContextualThumbnail ::
  "'r sharp \<Rightarrow> 'r \<Rightarrow> 'r \<Rightarrow> SceneDesign \<Rightarrow> error + 'r PlacedCompositingResult" where
  "compositeContextualThumbnail ops backgroundBuffer cutoutBuffer sceneDesign =
    err_bind (sharp_metadata ops cutoutBuffer) (\<lambda>cutoutMetadata.
    let cutoutWidth = or_400 (fst cutoutMetadata);
        cutoutHeight = or_400 (snd cutoutMetadata);
        pedestal = design_pedestal sceneDesign;
        pos = calculateProductPosition_contextual (pedestal_position pedestal)
                (pedestal_productSpaceRatio pedestal) (of_int cutoutWidth) (of_int cutoutHeight)
    in
    err_bind (sharp_resize_contain ops cutoutBuffer (pos_width pos) (pos_height pos))
      (\<lambda>resizedCutout.
    let shadow = getShadowFromDesign sceneDesign in
    err_bind (sharp_silhouette ops resizedCutout (max (shadow_blur shadow) 0.3)
                (shadow_opacity shadow)) (\<lambda>shadowBuffer.
    err_bind (sharp_resize_cover ops backgroundBuffer THUMBNAIL_WIDTH THUMBNAIL_HEIGHT)
      (\<lambda>resizedBackground.
    let compositeInputs =
          compositeInputs_contextual ops pedestal pos shadow shadowBuffer resizedCutout in
    err_bind (sharp_composite ops resizedBackground compositeInputs) (\<lambda>result.
    Inr \<lparr>imageBase64 = result, composited = True, result_position = pos\<rparr>)))))"

subsection \<open>The lifestyle pipeline (\<^verbatim>\<open>lifestyleCompositing.ts\<close>)\<close>




subsection \<open>The parts the two resolvers share\<close>







subsection \<open>A test double of the image library and a sample scene\<close>

text \<open>
  To run the pipelines on concrete inputs, \<open>sampleSharp\<close> implements the library calls on
  buffers that are a name with a width and a height: each call records itself in the name,
  \<open>sharp_composite\<close> appends the names of the layers in the order of the list, and
  \<open>sharp_blur\<close> accepts the values of sigma that sharp accepts (0.3 to 1000). The flag
  says whether the reflection chain succeeds.
\<close>

definition sampleSharp :: "bool \<Rightarrow> (string \<times> nat \<times> nat) sharp" where
  "sampleSharp reflectionWorks =
    \<lparr>sharp_metadata = (\<lambda>(n, w, h). Inr (Some w, Some h)),
     sharp_resize_contain = (\<lambda>(n, w, h) w' h'. Inr (''contain('' @ n @ '')'', nat w', nat h')),
     sharp_resize_cover = (\<lambda>(n, w, h) w' h'. Inr (''cover('' @ n @ '')'', nat w', nat h')),
     sharp_silhouette = (\<lambda>(n, w, h) sigma alpha. Inr (''shadow('' @ n @ '')'', w, h)),
     sharp_flip_fade = (\<lambda>(n, w, h) brightness sigma alpha.
        if reflectionWorks then Inr (''flip('' @ n @ '')'', w, h)
        else Inl (Error ''reflection failed'')),
     sharp_blur = (\<lambda>(n, w, h) sigma.
        if 0.3 \<le> sigma \<and> sigma \<le> 1000 then Inr (''blur('' @ n @ '')'', w, h)
        else Inl (Error ''Expected number between 0.3 and 1000 for sigma'')),
     sharp_composite = (\<lambda>(n, w, h) layers.
        Inr (n @ concat (map (\<lambda>l. ''+'' @ fst (layer_input l)) layers), w, h)),
     Buffer_from_svg = (\<lambda>svg. (''svg'', nat (svg_width svg), nat (svg_height svg)))\<rparr>"

definition sampleDesign ::
  "LightingType \<Rightarrow> LightingIntensity \<Rightarrow> string \<Rightarrow> ColorMood \<Rightarrow> SceneDesign" where
  \<comment> \<open>a scene with a reflecting pedestal at center-bottom and product space ratio 0.4\<close>
  "sampleDesign lt li bg m =
    \<lparr>design_environment =
       \<lparr>environment_lighting = \<lparr>lighting_type = lt, lighting_intensity = li\<rparr>\<rparr>,
     design_colorScheme = \<lparr>colorScheme_background = bg, colorScheme_mood = m\<rparr>,
     design_pedestal = \<lparr>pedestal_position = CenterBottom, pedestal_hasReflection = True,
                        pedestal_productSpaceRatio = 0.4\<rparr>\<rparr>"

section \<open>Properties\<close>

subsection \<open>Geometry: the resolvers in terms of their parts\<close>

















subsection \<open>C1: the box lies inside the canvas\<close>




subsection \<open>C2: the target width and the range of \<open>productSpaceRatio\<close>\<close>




subsection \<open>C3: the left-third and right-third anchors\<close>








subsection \<open>C9: the cutout enters only through its aspect ratio\<close>



subsection \<open>The test double and the sample inputs\<close>

lemma sampleSharp_simps:
  "sharp_metadata (sampleSharp r) (n, w, h) = Inr (Some w, Some h)"
  "sharp_resize_contain (sampleSharp r) (n, w, h) w' h' = Inr (''contain('' @ n @ '')'', nat w', nat h')"
  "sharp_resize_cover (sampleSharp r) (n, w, h) w' h' = Inr (''cover('' @ n @ '')'', nat w', nat h')"
  "sharp_silhouette (sampleSharp r) (n, w, h) sigma alpha = Inr (''shadow('' @ n @ '')'', w, h)"
  "sharp_flip_fade (sampleSharp r) (n, w, h) brightness sigma alpha =
     (if r then Inr (''flip('' @ n @ '')'', w, h) else Inl (Error ''reflection failed''))"
  "sharp_blur (sampleSharp r) (n, w, h) sigma =
     (if 0.3 \<le> sigma \<and> sigma \<le> 1000 then Inr (''blur('' @ n @ '')'', w, h)
      else Inl (Error ''Expected number between 0.3 and 1000 for sigma''))"
  "sharp_composite (sampleSharp r) (n, w, h) layers =
     Inr (n @ concat (map (\<lambda>l. ''+'' @ fst (layer_input l)) layers), w, h)"
  "Buffer_from_svg (sampleSharp r) svg = (''svg'', nat (svg_width svg), nat (svg_height svg))"
  by (simp_all add: sampleSharp_def)

lemma sampleDesign_simps:
  "lighting_type (environment_lighting (design_environment (sampleDesign lt li bg m))) = lt"
  "lighting_intensity (environment_lighting (design_environment (sampleDesign lt li bg m))) = li"
  "colorScheme_background (design_colorScheme (sampleDesign lt li bg m)) = bg"
  "colorScheme_mood (design_colorScheme (sampleDesign lt li bg m)) = m"
  "design_pedestal (sampleDesign lt li bg m) =
     \<lparr>pedestal_position = CenterBottom, pedestal_hasReflection = True,
      pedestal_productSpaceRatio = 0.4\<rparr>"
  by (simp_all add: sampleDesign_def)

lemma sample_position:
  "calculateProductPosition_contextual CenterBottom (2 / 5) 200 300
     = \<lparr>pos_x = 436, pos_y = 20, pos_width = 408, pos_height = 612\<rparr>"
  by (simp add: calculateProductPosition_contextual_def THUMBNAIL_WIDTH_def THUMBNAIL_HEIGHT_def
        Let_def floor_eq_iff)


subsection \<open>Shadow presets of the scene-aware pipeline\<close>

lemma lowerChar_fixed:
  assumes "lowerChar c = d" and "d \<notin> set ''abcdefghijklmnopqrstuvwxyz''"
  shows "c = d"
proof (cases "map_of (zip ''ABCDEFGHIJKLMNOPQRSTUVWXYZ'' ''abcdefghijklmnopqrstuvwxyz'') c")
  case None
  then show ?thesis using assms(1) by (simp add: lowerChar_def)
next
  case (Some l)
  then have "l \<in> set ''abcdefghijklmnopqrstuvwxyz''"
    by (meson map_of_SomeD set_zip_rightD)
  moreover have "l = d" using Some assms(1) by (simp add: lowerChar_def)
  ultimately show ?thesis using assms(2) by simp
qed

lemma map_lowerChar_fixed:
  "map lowerChar s = t \<Longrightarrow> set t \<inter> set ''abcdefghijklmnopqrstuvwxyz'' = {} \<Longrightarrow> s = t"
proof (induction s arbitrary: t)
  case Nil then show ?case by simp
next
  case (Cons c cs)
  then obtain d ds where t: "t = d # ds" "lowerChar c = d" "map lowerChar cs = ds" by auto
  have "d \<notin> set ''abcdefghijklmnopqrstuvwxyz''" using Cons.prems(2) t(1) by auto
  then have "c = d" using lowerChar_fixed[OF t(2)] by blast
  moreover have "cs = ds" using Cons.IH[OF t(3)] Cons.prems(2) t(1) by simp
  ultimately show ?case using t(1) by simp
qed

lemma black_digits: "set ''#000000'' \<inter> set ''abcdefghijklmnopqrstuvwxyz'' = {}"
  by simp

lemma lower_black: "toLowerCase ''#000000'' = ''#000000''"
  by (simp add: toLowerCase_def lowerChar_def)

lemma toLowerCase_black: "toLowerCase s = ''#000000'' \<longleftrightarrow> s = ''#000000''"
  using map_lowerChar_fixed[OF _ black_digits, of s] lower_black
  unfolding toLowerCase_def by auto

lemma SHADOW_PRESETS_inj: "SHADOW_PRESETS k = SHADOW_PRESETS k' \<longleftrightarrow> k = k'"
  by (cases k; cases k'; simp)

lemma getShadowFromDesign_cascade:
  "getShadowFromDesign design =
    (if lighting_type (environment_lighting (design_environment design)) = LT_dramatic
        \<or> lighting_type (environment_lighting (design_environment design)) = LT_neon
     then SHADOW_PRESETS P_dramatic
     else if lighting_type (environment_lighting (design_environment design)) = LT_soft
        \<or> lighting_intensity (environment_lighting (design_environment design)) = LI_low_key
     then SHADOW_PRESETS P_soft
     else if isDarkBg design then SHADOW_PRESETS P_dark
     else SHADOW_PRESETS P_light)"
  by (simp add: getShadowFromDesign_def Let_def del: SHADOW_PRESETS.simps)


lemma getShadowFromDesign_is_preset:
  "getShadowFromDesign design \<in>
      {SHADOW_PRESETS P_dramatic, SHADOW_PRESETS P_soft, SHADOW_PRESETS P_dark,
       SHADOW_PRESETS P_light}"
  unfolding getShadowFromDesign_cascade by (simp del: SHADOW_PRESETS.simps)

text \<open>
  Claim C4. For every scene design, \<^verbatim>\<open>getShadowFromDesign\<close> returns the dramatic preset
  when the lighting type is dramatic or neon; otherwise the soft preset when the lighting
  type is soft or the intensity is low-key; otherwise the dark preset when the background
  is dark (background colour \<^verbatim>\<open>#000000\<close>, or containing \<^verbatim>\<open>1c1c1e\<close>, or mood bold or
  energetic); otherwise the light preset. Exactly one preset is returned. The code
  compares the lower-cased background colour, so \<^verbatim>\<open>1c1c1e\<close> is found in any mix of cases;
  lower-casing does not change which strings equal \<^verbatim>\<open>#000000\<close>.
\<close>

theorem getShadowFromDesign_priority:
  "getShadowFromDesign design =
    (let lightingType = lighting_type (environment_lighting (design_environment design));
         lightingIntensity = lighting_intensity (environment_lighting (design_environment design));
         bgColor = colorScheme_background (design_colorScheme design);
         colorMood = colorScheme_mood (design_colorScheme design)
     in if lightingType = LT_dramatic \<or> lightingType = LT_neon then SHADOW_PRESETS P_dramatic
        else if lightingType = LT_soft \<or> lightingIntensity = LI_low_key then SHADOW_PRESETS P_soft
        else if bgColor = ''#000000'' \<or> String_includes (toLowerCase bgColor) ''1c1c1e''
                \<or> colorMood = Mood_bold \<or> colorMood = Mood_energetic
             then SHADOW_PRESETS P_dark
        else SHADOW_PRESETS P_light)
   \<and> (\<exists>!k. getShadowFromDesign design = SHADOW_PRESETS k)"
proof -
  have "\<exists>k. getShadowFromDesign design = SHADOW_PRESETS k"
    using getShadowFromDesign_is_preset[of design] by (auto simp del: SHADOW_PRESETS.simps)
  then have "\<exists>!k. getShadowFromDesign design = SHADOW_PRESETS k"
    by (auto simp add: SHADOW_PRESETS_inj simp del: SHADOW_PRESETS.simps)
  moreover have "isDarkBg design \<longleftrightarrow>
      colorScheme_background (design_colorScheme design) = ''#000000''
      \<or> String_includes (toLowerCase (colorScheme_background (design_colorScheme design))) ''1c1c1e''
      \<or> colorScheme_mood (design_colorScheme design) = Mood_bold
      \<or> colorScheme_mood (design_colorScheme design) = Mood_energetic"
    by (simp add: isDarkBg_def Let_def toLowerCase_black)
  ultimately show ?thesis
    unfolding getShadowFromDesign_cascade Let_def by (simp del: SHADOW_PRESETS.simps)
qed

theorem getShadowFromDesign_priority_witness:
  "getShadowFromDesign (sampleDesign LT_natural LI_balanced ''#1C1C1E'' Mood_calm) = SHADOW_PRESETS P_dark
   \<and> getShadowFromDesign (sampleDesign LT_neon LI_low_key ''#ffffff'' Mood_calm) = SHADOW_PRESETS P_dramatic
   \<and> getShadowFromDesign (sampleDesign LT_studio LI_low_key ''#000000'' Mood_bold) = SHADOW_PRESETS P_soft
   \<and> getShadowFromDesign (sampleDesign LT_studio LI_balanced ''#ffffff'' Mood_calm) = SHADOW_PRESETS P_light"
  using getShadowFromDesign_priority[of "sampleDesign LT_natural LI_balanced ''#1C1C1E'' Mood_calm"]
    getShadowFromDesign_priority[of "sampleDesign LT_neon LI_low_key ''#ffffff'' Mood_calm"]
    getShadowFromDesign_priority[of "sampleDesign LT_studio LI_low_key ''#000000'' Mood_bold"]
    getShadowFromDesign_priority[of "sampleDesign LT_studio LI_balanced ''#ffffff'' Mood_calm"]
  by (simp add: sampleDesign_simps Let_def toLowerCase_def lowerChar_def
        del: SHADOW_PRESETS.simps)

text \<open>
  Claim C10. For every scene design, \<^verbatim>\<open>getShadowFromDesign\<close> returns one of the dramatic,
  soft, dark and light presets and never the default preset (which differs from all four):
  the last two tests are \<open>isDarkBg\<close> and its negation, so the final \<^verbatim>\<open>return\<close> is not
  reached.
\<close>

theorem getShadowFromDesign_never_default:
  "getShadowFromDesign design \<in>
      {SHADOW_PRESETS P_dramatic, SHADOW_PRESETS P_soft, SHADOW_PRESETS P_dark,
       SHADOW_PRESETS P_light}
   \<and> getShadowFromDesign design \<noteq> SHADOW_PRESETS P_default
   \<and> SHADOW_PRESETS P_default \<notin>
      {SHADOW_PRESETS P_dramatic, SHADOW_PRESETS P_soft, SHADOW_PRESETS P_dark,
       SHADOW_PRESETS P_light}"
proof -
  have d: "SHADOW_PRESETS P_default \<notin>
      {SHADOW_PRESETS P_dramatic, SHADOW_PRESETS P_soft, SHADOW_PRESETS P_dark,
       SHADOW_PRESETS P_light}" by simp
  with getShadowFromDesign_is_preset[of design] show ?thesis by metis
qed

theorem getShadowFromDesign_never_default_witness:
  "getShadowFromDesign (sampleDesign LT_studio LI_balanced ''#ffffff'' Mood_calm)
     \<noteq> SHADOW_PRESETS P_default"
  using getShadowFromDesign_never_default
          [of "sampleDesign LT_studio LI_balanced ''#ffffff'' Mood_calm"]
  by blast

subsection \<open>The vignette\<close>







subsection \<open>The softening filter\<close>



subsection \<open>The pipelines\<close>

lemma err_bind_simps:
  "err_bind (Inl e) f = Inl e" "err_bind (Inr v) f = f v"
  by (simp_all add: err_bind_def)


lemma compositeInputs_contextual_shape:
  "compositeInputs_contextual ops pedestal pos shadow shadowBuffer resizedCutout =
     [\<lparr>layer_input = shadowBuffer,
       layer_top = Some (max 0 (pos_y pos + shadow_offsetY shadow)),
       layer_left = Some (max 0 (pos_x pos + shadow_offsetX shadow)),
       layer_blend = None\<rparr>]
     @ (if pedestal_hasReflection pedestal \<and> pedestal_position pedestal = CenterBottom then
          (case sharp_flip_fade ops resizedCutout 0.3 3 0.3 of
             Inl reflectionError \<Rightarrow> []
           | Inr reflectionBuffer \<Rightarrow>
               [\<lparr>layer_input = reflectionBuffer,
                 layer_top = Some (min 670 (pos_y pos + pos_height pos)),
                 layer_left = Some (pos_x pos),
                 layer_blend = None\<rparr>])
        else [])
     @ [\<lparr>layer_input = resizedCutout, layer_top = Some (pos_y pos),
         layer_left = Some (pos_x pos), layer_blend = None\<rparr>]"
  by (simp add: compositeInputs_contextual_def Let_def THUMBNAIL_HEIGHT_def split: sum.splits)

text \<open>
  Claim C5. In the scene-aware pipeline a reflection layer is added exactly when
  \<^verbatim>\<open>pedestal.hasReflection\<close> holds and \<^verbatim>\<open>pedestal.position\<close> is center-bottom (and the
  reflection chain succeeds); its top is \<open>min 670 (y + height)\<close>, at most 670, and its left
  is the \<open>x\<close> of the box. When the reflection chain fails the layer is left out and the
  pipeline goes on to the same result it gives without reflection, with
  \<open>composited = True\<close>. The failure of any other step (metadata, resizing the cutout, the
  shadow, resizing the background, the composite) is the result of the call.
\<close>

theorem compositeContextualThumbnail_reflection:
  "(case sharp_metadata ops cutoutBuffer of
      Inl e \<Rightarrow> compositeContextualThumbnail ops backgroundBuffer cutoutBuffer sceneDesign = Inl e
    | Inr cutoutMetadata \<Rightarrow>
       (let pedestal = design_pedestal sceneDesign;
            pos = calculateProductPosition_contextual (pedestal_position pedestal)
                    (pedestal_productSpaceRatio pedestal)
                    (of_int (or_400 (fst cutoutMetadata))) (of_int (or_400 (snd cutoutMetadata)));
            shadow = getShadowFromDesign sceneDesign
        in case sharp_resize_contain ops cutoutBuffer (pos_width pos) (pos_height pos) of
             Inl e \<Rightarrow>
               compositeContextualThumbnail ops backgroundBuffer cutoutBuffer sceneDesign = Inl e
           | Inr resizedCutout \<Rightarrow>
              (case sharp_silhouette ops resizedCutout (max (shadow_blur shadow) 0.3)
                      (shadow_opacity shadow) of
                 Inl e \<Rightarrow>
                   compositeContextualThumbnail ops backgroundBuffer cutoutBuffer sceneDesign = Inl e
               | Inr shadowBuffer \<Rightarrow>
                  (case sharp_resize_cover ops backgroundBuffer 1280 720 of
                     Inl e \<Rightarrow>
                       compositeContextualThumbnail ops backgroundBuffer cutoutBuffer sceneDesign
                         = Inl e
                   | Inr resizedBackground \<Rightarrow>
                      (let reflection =
                             (if pedestal_hasReflection pedestal
                                 \<and> pedestal_position pedestal = CenterBottom then
                                (case sharp_flip_fade ops resizedCutout 0.3 3 0.3 of
                                   Inl reflectionError \<Rightarrow> []
                                 | Inr reflectionBuffer \<Rightarrow>
                                     [\<lparr>layer_input = reflectionBuffer,
                                       layer_top = Some (min 670 (pos_y pos + pos_height pos)),
                                       layer_left = Some (pos_x pos),
                                       layer_blend = None\<rparr>])
                              else [])
                       in min 670 (pos_y pos + pos_height pos) \<le> 670
                          \<and> (case sharp_composite ops resizedBackground
                                   ([\<lparr>layer_input = shadowBuffer,
                                      layer_top = Some (max 0 (pos_y pos + shadow_offsetY shadow)),
                                      layer_left = Some (max 0 (pos_x pos + shadow_offsetX shadow)),
                                      layer_blend = None\<rparr>]
                                    @ reflection
                                    @ [\<lparr>layer_input = resizedCutout, layer_top = Some (pos_y pos),
                                        layer_left = Some (pos_x pos), layer_blend = None\<rparr>]) of
                             Inl e \<Rightarrow>
                               compositeContextualThumbnail ops backgroundBuffer cutoutBuffer
                                 sceneDesign = Inl e
                           | Inr result \<Rightarrow>
                               compositeContextualThumbnail ops backgroundBuffer cutoutBuffer
                                 sceneDesign
                                 = Inr \<lparr>imageBase64 = result, composited = True,
                                        result_position = pos\<rparr>))))))"
  unfolding compositeContextualThumbnail_def compositeInputs_contextual_shape
  by (auto simp add: Let_def err_bind_simps THUMBNAIL_WIDTH_def THUMBNAIL_HEIGHT_def
        split: sum.splits)


theorem compositeContextualThumbnail_reflection_witness:
  "compositeContextualThumbnail (sampleSharp False) (''bg'', 1920, 1080) (''cutout'', 200, 300)
      (sampleDesign LT_natural LI_balanced ''#ffffff'' Mood_calm)
     = Inr \<lparr>imageBase64 = (''cover(bg)+shadow(contain(cutout))+contain(cutout)'', 1280, 720),
            composited = True,
            result_position = \<lparr>pos_x = 436, pos_y = 20, pos_width = 408, pos_height = 612\<rparr>\<rparr>
   \<and> compositeContextualThumbnail (sampleSharp True) (''bg'', 1920, 1080) (''cutout'', 200, 300)
      (sampleDesign LT_natural LI_balanced ''#ffffff'' Mood_calm)
     = Inr \<lparr>imageBase64 =
              (''cover(bg)+shadow(contain(cutout))+flip(contain(cutout))+contain(cutout)'',
               1280, 720),
            composited = True,
            result_position = \<lparr>pos_x = 436, pos_y = 20, pos_width = 408, pos_height = 612\<rparr>\<rparr>
   \<and> compositeContextualThumbnail
        ((sampleSharp True)\<lparr>sharp_resize_cover :=
            (\<lambda>b w h. Inl (Error ''Input buffer contains unsupported image format''))\<rparr>)
        (''bg'', 1920, 1080) (''cutout'', 200, 300)
        (sampleDesign LT_natural LI_balanced ''#ffffff'' Mood_calm)
     = Inl (Error ''Input buffer contains unsupported image format'')"
  using
    compositeContextualThumbnail_reflection
      [where ops = "sampleSharp False" and cutoutBuffer = "(''cutout'', 200, 300)"
         and backgroundBuffer = "(''bg'', 1920, 1080)"
         and sceneDesign = "sampleDesign LT_natural LI_balanced ''#ffffff'' Mood_calm"]
    compositeContextualThumbnail_reflection
      [where ops = "sampleSharp True" and cutoutBuffer = "(''cutout'', 200, 300)"
         and backgroundBuffer = "(''bg'', 1920, 1080)"
         and sceneDesign = "sampleDesign LT_natural LI_balanced ''#ffffff'' Mood_calm"]
    compositeContextualThumbnail_reflection
      [where ops = "(sampleSharp True)\<lparr>sharp_resize_cover :=
            (\<lambda>b w h. Inl (Error ''Input buffer contains unsupported image format''))\<rparr>"
         and cutoutBuffer = "(''cutout'', 200, 300)"
         and backgroundBuffer = "(''bg'', 1920, 1080)"
         and sceneDesign = "sampleDesign LT_natural LI_balanced ''#ffffff'' Mood_calm"]
  by (simp add: sampleSharp_simps sampleDesign_simps or_400_def sample_position Let_def)









end
